theory Spec2Isabelle
  imports Complex_Main "HOL-Library.Sublist"
begin

section \<open>Python values, exceptions and strings\<close>

text \<open>
  A Python \<open>str\<close> is modelled as a \<open>string\<close> holding its UTF-8 bytes, so the two
  non-ASCII symbols of the program (the pill of the page title and the warning sign of the
  disclaimer) are written byte by byte. Prefix, suffix and concatenation agree on code
  points and on UTF-8 bytes.
\<close>

definition nl :: string where
  "nl = [CHR 0x0A]"

text \<open>
  A cell of a worksheet, as \<open>get_all_records\<close> returns it: a \<open>str\<close>, or (after the
  numericising of gspread) an \<open>int\<close> or a \<open>float\<close>. The program never computes with a
  cell: it formats it into an f-string or copies it into the metadata of a Document, so a
  float is carried by the text that \<open>format\<close> gives it.
\<close>

datatype pyval = Str string | Integer int | Float string

fun digit :: "nat \<Rightarrow> char" where
  "digit n = char_of (48 + n)"

fun str_nat :: "nat \<Rightarrow> string" where
  "str_nat n = (if n < 10 then [digit n] else str_nat (n div 10) @ [digit (n mod 10)])"

declare str_nat.simps [simp del]

definition str_int :: "int \<Rightarrow> string" where
  "str_int i = (if i < 0 then CHR ''-'' # str_nat (nat (- i)) else str_nat (nat i))"

fun format_val :: "pyval \<Rightarrow> string" where
  "format_val (Str s) = s"
| "format_val (Integer i) = str_int i"
| "format_val (Float r) = r"

fun type_name :: "pyval \<Rightarrow> string" where
  "type_name (Str s) = ''str''"
| "type_name (Integer i) = ''int''"
| "type_name (Float r) = ''float''"

text \<open>
  Exceptions are values. \<open>KeyError\<close> is raised by a subscript with a missing key,
  \<open>TypeError\<close> by \<open>str.join\<close> on an item that is not a \<open>str\<close>, \<open>IndexError\<close> by the
  vector store built from no document, \<open>AttributeError\<close> by reading a key that the
  session state does not hold. \<open>External\<close> is any exception of a collaborator
  outside the program (the spreadsheet service, the embedding model, the generation
  service), carried by what \<open>str\<close> and \<open>repr\<close> give for it.
\<close>

datatype error =
    KeyError string
  | TypeError string
  | IndexError string
  | AttributeError string
  | External string string

text \<open>The \<open>repr\<close> of a \<open>str\<close> without quotes or escapes in it, as a column name is.\<close>

definition repr_str :: "string \<Rightarrow> string" where
  "repr_str s = [CHR 0x27] @ s @ [CHR 0x27]"

fun str_exc :: "error \<Rightarrow> string" where
  "str_exc (KeyError k) = repr_str k"
| "str_exc (TypeError m) = m"
| "str_exc (IndexError m) = m"
| "str_exc (AttributeError m) = m"
| "str_exc (External s r) = s"

fun repr_exc :: "error \<Rightarrow> string" where
  "repr_exc (KeyError k) = ''KeyError('' @ repr_str k @ '')''"
| "repr_exc (TypeError m) = ''TypeError('' @ repr_str m @ '')''"
| "repr_exc (IndexError m) = ''IndexError('' @ repr_str m @ '')''"
| "repr_exc (AttributeError m) = ''AttributeError('' @ repr_str m @ '')''"
| "repr_exc (External s r) = r"

text \<open>Sequencing of steps that may raise: the first exception ends the computation.\<close>

fun bind :: "error + 'a \<Rightarrow> ('a \<Rightarrow> error + 'b) \<Rightarrow> error + 'b" where
  "bind (Inl e) f = Inl e"
| "bind (Inr x) f = f x"

text \<open>A list comprehension whose element expression may raise.\<close>

fun comprehension :: "('a \<Rightarrow> error + 'b) \<Rightarrow> 'a list \<Rightarrow> error + 'b list" where
  "comprehension f [] = Inr []"
| "comprehension f (x # xs) =
     bind (f x) (\<lambda>y. bind (comprehension f xs) (\<lambda>ys. Inr (y # ys)))"

text \<open>
  A dict is an association list (the dicts of the program have no key twice); a subscript
  with a missing key raises \<open>KeyError\<close>.
\<close>

type_synonym 'v dict = "(string \<times> 'v) list"

definition getitem :: "'v dict \<Rightarrow> string \<Rightarrow> error + 'v" where
  "getitem d k = (case map_of d k of None \<Rightarrow> Inl (KeyError k) | Some v \<Rightarrow> Inr v)"

section \<open>The collaborators outside the program\<close>

text \<open>
  A spreadsheet, as the program reads it: \<open>sheet.worksheet(name).get_all_records()\<close> gives
  the rows of the named worksheet, one dict per row, keyed by the header row (so the rows of
  one worksheet have the same keys, and the DataFrame built from them and iterated by
  \<open>iterrows\<close> yields them unchanged), or raises.
\<close>

type_synonym spreadsheet = "string \<Rightarrow> error + pyval dict list"

text \<open>The settings of the generation service, as \<open>ChatGroq\<close> is given them.\<close>

record llm =
  llm_model :: string
  llm_temperature :: real
  llm_api_key :: "string option"

text \<open>
  Everything outside the program that one run of the script meets:
  \<^item> \<open>environ\<close>: the environment variables, read by \<open>os.getenv\<close>;
  \<^item> \<open>open_by_key\<close>: the credentials, the authorisation and the opening of the
    spreadsheet with the given identifier;
  \<^item> \<open>hf_embeddings\<close>: the loading of the named embedding model, giving the embedding
    function (of type \<open>'e\<close>, the vectors), which may itself raise on a text;
  \<^item> \<open>l2\<close>: the distance of two vectors (of an ordered type \<open>'d\<close>);
  \<^item> \<open>chat_groq\<close>: the construction of the client of the generation service, which may
    refuse its settings;
  \<^item> \<open>groq_invoke\<close>: one call of the generation service on a rendered prompt. It differs
    from run to run: the service is not deterministic and may be unreachable;
  \<^item> \<open>str_hash\<close>: the hash of a value in this process, which fixes the iteration order of
    a set.
\<close>

record ('e, 'd) world =
  environ :: "string \<Rightarrow> string option"
  open_by_key :: "string option \<Rightarrow> error + spreadsheet"
  hf_embeddings :: "string \<Rightarrow> error + (string \<Rightarrow> error + 'e)"
  l2 :: "'e \<Rightarrow> 'e \<Rightarrow> 'd"
  chat_groq :: "llm \<Rightarrow> error option"
  groq_invoke :: "llm \<Rightarrow> string \<Rightarrow> error + string"
  str_hash :: "pyval \<Rightarrow> int"

section \<open>Loading the documents\<close>

record document =
  page_content :: string
  metadata :: "pyval dict"

definition connect_to_gsheets :: "('e, 'd) world \<Rightarrow> error + spreadsheet" where
  "connect_to_gsheets w = open_by_key w (environ w ''SPREADSHEET_ID'')"

text \<open>
  The element expression of each of the three comprehensions. The subscripts are evaluated
  in the order of the source: those of the f-string, then those of the metadata.
\<close>

definition medicine_doc :: "pyval dict \<Rightarrow> error + document" where
  "medicine_doc row =
     bind (getitem row ''Name'') (\<lambda>name.
     bind (getitem row ''Generic Name'') (\<lambda>generic.
     bind (getitem row ''Uses'') (\<lambda>uses.
     bind (getitem row ''Side Effects'') (\<lambda>effects.
     bind (getitem row ''Common Brands (India)'') (\<lambda>brands.
     bind (getitem row ''Prescription'') (\<lambda>prescription.
     bind (getitem row ''Common Brands (India)'') (\<lambda>brands'.
     Inr \<lparr>page_content =
            ''Medicine: '' @ format_val name @ nl @
            ''Generic: '' @ format_val generic @ nl @
            ''Uses: '' @ format_val uses @ nl @
            ''Side Effects: '' @ format_val effects @ nl @
            ''Brands: '' @ format_val brands,
          metadata =
            [(''type'', Str ''medicine''),
             (''prescription'', prescription),
             (''brands'', brands')]\<rparr>)))))))"

definition disease_doc :: "pyval dict \<Rightarrow> error + document" where
  "disease_doc row =
     bind (getitem row ''Name'') (\<lambda>name.
     bind (getitem row ''Symptoms'') (\<lambda>symptoms.
     bind (getitem row ''Recommended Medicines'') (\<lambda>medicines.
     bind (getitem row ''Precautions'') (\<lambda>precautions.
     bind (getitem row ''Symptoms'') (\<lambda>symptoms'.
     bind (getitem row ''Recommended Medicines'') (\<lambda>medicines'.
     Inr \<lparr>page_content =
            ''Disease: '' @ format_val name @ nl @
            ''Symptoms: '' @ format_val symptoms @ nl @
            ''Medicines: '' @ format_val medicines @ nl @
            ''Precautions: '' @ format_val precautions,
          metadata =
            [(''type'', Str ''disease''),
             (''symptoms'', symptoms'),
             (''medicines'', medicines')]\<rparr>))))))"

definition symptom_doc :: "pyval dict \<Rightarrow> error + document" where
  "symptom_doc row =
     bind (getitem row ''Name'') (\<lambda>name.
     bind (getitem row ''Associated Diseases'') (\<lambda>diseases.
     bind (getitem row ''Severity'') (\<lambda>severity.
     bind (getitem row ''Associated Diseases'') (\<lambda>diseases'.
     bind (getitem row ''Severity'') (\<lambda>severity'.
     Inr \<lparr>page_content =
            ''Symptom: '' @ format_val name @ nl @
            ''Associated Diseases: '' @ format_val diseases @ nl @
            ''Severity: '' @ format_val severity,
          metadata =
            [(''type'', Str ''symptom''),
             (''diseases'', diseases'),
             (''severity'', severity')]\<rparr>)))))"

text \<open>
  Each worksheet is fetched and turned into documents before the next one is fetched, so
  the first exception, in the order of the source, is the one raised.
\<close>

definition load_pharma_data :: "('e, 'd) world \<Rightarrow> error + document list" where
  "load_pharma_data w =
     bind (connect_to_gsheets w) (\<lambda>sheet.
     bind (sheet ''Medicines'') (\<lambda>medicines_df.
     bind (comprehension medicine_doc medicines_df) (\<lambda>medicine_docs.
     bind (sheet ''Diseases'') (\<lambda>diseases_df.
     bind (comprehension disease_doc diseases_df) (\<lambda>disease_docs.
     bind (sheet ''Symptoms'') (\<lambda>symptoms_df.
     bind (comprehension symptom_doc symptoms_df) (\<lambda>symptom_docs.
     Inr (medicine_docs @ disease_docs @ symptom_docs))))))))"

section \<open>The vector store\<close>

text \<open>
  The index: the documents with their vectors in the order they were added, the embedding
  function (used again for the question) and the distance.
\<close>

record ('e, 'd) vectorstore =
  entries :: "('e \<times> document) list"
  embedding_function :: "string \<Rightarrow> error + 'e"
  metric :: "'e \<Rightarrow> 'e \<Rightarrow> 'd"

text \<open>
  Modelled from the spec: \<open>FAISS.from_documents\<close>, of the vector-store library, is not
  part of the program. Following section 4.2 (the index builder), it computes the vector of each
  document with the embedding function and indexes all the pairs; an embedding that fails
  ends the build with no index. The library sizes the index on the first vector, so it
  raises \<open>IndexError\<close> on an empty list of documents.
\<close>

definition from_documents ::
  "('e \<Rightarrow> 'e \<Rightarrow> 'd) \<Rightarrow> document list \<Rightarrow> (string \<Rightarrow> error + 'e) \<Rightarrow> error + ('e, 'd) vectorstore"
where
  "from_documents distance docs embeddings =
     bind (comprehension embeddings (map page_content docs)) (\<lambda>vectors.
     if vectors = [] then Inl (IndexError ''list index out of range'')
     else Inr \<lparr>entries = zip vectors docs,
               embedding_function = embeddings,
               metric = distance\<rparr>)"

definition get_vectorstore ::
  "('e, 'd) world \<Rightarrow> document list \<Rightarrow> error + ('e, 'd) vectorstore"
where
  "get_vectorstore w docs =
     bind (hf_embeddings w ''sentence-transformers/all-mpnet-base-v2'') (\<lambda>embeddings.
     from_documents (l2 w) docs embeddings)"

text \<open>
  Modelled from the spec: the search of the index is the library's. Following section 4.3
  and the contract \<open>nearest(query_vector, k)\<close> of section 6, it embeds the question with
  the function of the index and returns the \<open>k\<close> documents nearest to it, nearest first,
  ties in the order of the index.
\<close>

definition similarity_search ::
  "('e, 'd::linorder) vectorstore \<Rightarrow> string \<Rightarrow> nat \<Rightarrow> error + document list"
where
  "similarity_search vs question n =
     bind (embedding_function vs question) (\<lambda>v.
     Inr (map snd (take n (sort_key (\<lambda>entry. metric vs v (fst entry)) (entries vs)))))"

section \<open>The question-answering chain\<close>

definition PROMPT_TEMPLATE :: "string \<Rightarrow> string \<Rightarrow> string" where
  "PROMPT_TEMPLATE context question =
     ''You are an Indian pharmaceutical assistant. Provide:'' @ nl @
     ''    1. Medicine info including Indian brands'' @ nl @
     ''    2. Disease info with symptoms and treatments'' @ nl @
     ''    3. Always recommend doctor consultation for prescriptions'' @ nl @
     ''    4. Never suggest prescription medicines without doctor advice'' @ nl @
     ''    '' @ nl @
     ''    Context: '' @ context @ nl @
     ''    Question: '' @ question @ nl @
     ''    Answer:''"

record ('e, 'd) retriever =
  retriever_vectorstore :: "('e, 'd) vectorstore"
  search_k :: nat

record ('e, 'd) chain =
  chain_llm :: llm
  chain_type :: string
  chain_retriever :: "('e, 'd) retriever"
  chain_prompt :: "string \<Rightarrow> string \<Rightarrow> string"
  return_source_documents :: bool

definition create_qa_chain ::
  "('e, 'd) world \<Rightarrow> ('e, 'd) vectorstore \<Rightarrow> error + ('e, 'd) chain"
where
  "create_qa_chain w vectorstore =
     (let prompt = PROMPT_TEMPLATE;
          settings = \<lparr>llm_model = ''mistral-saba-24b'',
                      llm_temperature = 0.2,
                      llm_api_key = environ w ''GROQ_API_KEY''\<rparr>
      in case chat_groq w settings of
           Some e \<Rightarrow> Inl e
         | None \<Rightarrow>
             Inr \<lparr>chain_llm = settings,
                  chain_type = ''stuff'',
                  chain_retriever = \<lparr>retriever_vectorstore = vectorstore, search_k = 4\<rparr>,
                  chain_prompt = prompt,
                  return_source_documents = True\<rparr>)"

text \<open>What a call of the chain returns: a dict with the keys \<open>query\<close>, \<open>result\<close> and,
  when the chain was asked for them, \<open>source_documents\<close>.\<close>

record qa_result =
  query :: string
  result :: string
  source_documents :: "document list option"

fun join :: "string \<Rightarrow> string list \<Rightarrow> string" where
  "join sep [] = []"
| "join sep [x] = x"
| "join sep (x # y # ys) = x @ sep @ join sep (y # ys)"

text \<open>
  Modelled from the spec: the call of a \<open>RetrievalQA\<close> chain of type \<open>stuff\<close> is the
  library's. Following section 4.3, it retrieves the documents nearest to the question,
  renders the prompt with their contents (joined by a blank line) as the context and the
  question verbatim, and sends it to the generation service with the settings of the chain.
\<close>

definition call_chain ::
  "('e, 'd::linorder) world \<Rightarrow> ('e, 'd) chain \<Rightarrow> string \<Rightarrow> error + qa_result"
where
  "call_chain w c question =
     bind (similarity_search (retriever_vectorstore (chain_retriever c)) question
             (search_k (chain_retriever c))) (\<lambda>docs.
     bind (groq_invoke w (chain_llm c)
             (chain_prompt c (join (nl @ nl) (map page_content docs)) question)) (\<lambda>text.
     Inr \<lparr>query = question,
          result = text,
          source_documents = (if return_source_documents c then Some docs else None)\<rparr>))"

section \<open>The script\<close>

text \<open>
  Streamlit runs \<open>main\<close> from the top on every interaction. What a run leaves behind
  is the session state; what it shows is a sequence of elements, in the order they are
  drawn. \<open>ChatMessage\<close> opens the bubble of a role, the elements after it are drawn in
  it; \<open>Stop\<close> is \<open>st.stop()\<close>, after which the run draws nothing more.
\<close>

datatype ui =
    SetPageConfig string string
  | Title string
  | Write string
  | Spinner string
  | Success string
  | Error string
  | ChatMessage string
  | Markdown string
  | Stop

record message =
  role :: string
  content :: string

text \<open>The two keys of the session state; \<open>None\<close> is a key that is not there.\<close>

record ('e, 'd) session_state =
  qa_chain :: "('e, 'd) chain option"
  messages :: "message list option"

definition pill :: string where
  "pill = [CHR 0xF0, CHR 0x9F, CHR 0x92, CHR 0x8A]"

definition warning_sign :: string where
  "warning_sign = [CHR 0xE2, CHR 0x9A, CHR 0xA0, CHR 0xEF, CHR 0xB8, CHR 0x8F]"

definition disclaimer :: string where
  "disclaimer =
     nl @ nl @ warning_sign @ '' Disclaimer: Consult a doctor before taking any medication.''"

definition greeting :: message where
  "greeting =
     \<lparr>role = ''assistant'',
      content = ''Hello! I can help with medicine information, symptoms analysis, and disease information. How can I help you today?''\<rparr>"

text \<open>
  \<open>list(set(xs))\<close>: the distinct elements of \<open>xs\<close>, in the iteration order of the set.
  That order is fixed by the hashes of the elements, which for \<open>str\<close> change from process
  to process; the model orders the distinct elements by the hash, so that every order of
  them arises from some hash. The elements here are the type tags of documents, which
  are \<open>str\<close>.
\<close>

definition list_set :: "(pyval \<Rightarrow> int) \<Rightarrow> pyval list \<Rightarrow> pyval list" where
  "list_set h xs = sort_key h (remdups xs)"

text \<open>\<open>sep.join(xs)\<close> raises \<open>TypeError\<close> at the first item that is not a \<open>str\<close>.\<close>

fun str_items :: "nat \<Rightarrow> pyval list \<Rightarrow> error + string list" where
  "str_items i [] = Inr []"
| "str_items i (Str s # vs) = bind (str_items (Suc i) vs) (\<lambda>ss. Inr (s # ss))"
| "str_items i (v # vs) =
     Inl (TypeError (''sequence item '' @ str_nat i @ '': expected str instance, '' @
                     type_name v @ '' found''))"

definition join_vals :: "string \<Rightarrow> pyval list \<Rightarrow> error + string" where
  "join_vals sep vs = bind (str_items 0 vs) (\<lambda>ss. Inr (join sep ss))"

text \<open>Line 155: the types of the retrieved documents, duplicates collapsed.\<close>

definition sources_of :: "(pyval \<Rightarrow> int) \<Rightarrow> document list \<Rightarrow> error + pyval list" where
  "sources_of h docs =
     bind (comprehension (\<lambda>doc. getitem (metadata doc) ''type'') docs) (\<lambda>types.
     Inr (list_set h types))"

text \<open>
  Reading \<open>st.session_state.qa_chain\<close>, which raises when the key is not there (it is
  there after every start-up that did not stop the run).
\<close>

definition session_chain :: "('e, 'd) session_state \<Rightarrow> error + ('e, 'd) chain" where
  "session_chain st =
     (case qa_chain st of
        None \<Rightarrow> Inl (AttributeError ''st.session_state has no attribute qa_chain'')
      | Some c \<Rightarrow> Inr c)"

text \<open>Lines 150 to 158, the body of the \<open>try\<close> of a chat turn up to the response.\<close>

definition answer ::
  "('e, 'd::linorder) world \<Rightarrow> ('e, 'd) session_state \<Rightarrow> string \<Rightarrow> error + string"
where
  "answer w st prompt =
     bind (session_chain st) (\<lambda>c.
     bind (call_chain w c prompt) (\<lambda>res.
     bind (case source_documents res of
             Some docs \<Rightarrow>
               bind (sources_of (str_hash w) docs) (\<lambda>sources.
               bind (join_vals '', '' sources) (\<lambda>joined.
               Inr (result res @ nl @ nl @ ''Sources: '' @ joined)))
           | None \<Rightarrow> Inr (result res)) (\<lambda>response.
     Inr (response @ disclaimer))))"

text \<open>Lines 121 to 126, the body of the \<open>try\<close> of the start-up, with what it shows.\<close>

definition initialize ::
  "('e, 'd) world \<Rightarrow> ui list \<times> (error + ('e, 'd) chain)"
where
  "initialize w =
     (case load_pharma_data w of
        Inl e \<Rightarrow> ([], Inl e)
      | Inr docs \<Rightarrow>
          (let shown = [Success (''Loaded '' @ str_nat (length docs) @
                                 '' documents from Google Sheets'')]
           in case get_vectorstore w docs of
                Inl e \<Rightarrow> (shown, Inl e)
              | Inr vectorstore \<Rightarrow>
                  (let shown' = shown @ [Success ''Vector store created successfully'']
                   in case create_qa_chain w vectorstore of
                        Inl e \<Rightarrow> (shown', Inl e)
                      | Inr c \<Rightarrow> (shown' @ [Success ''QA chain initialized''], Inr c))))"

text \<open>Lines 118 to 130: the start-up, run when the session state holds no chain.\<close>

definition startup ::
  "('e, 'd) world \<Rightarrow> ('e, 'd) session_state \<Rightarrow> ui list \<times> (error + ('e, 'd) session_state)"
where
  "startup w st =
     (case qa_chain st of
        Some c \<Rightarrow> ([], Inr st)
      | None \<Rightarrow>
          (case initialize w of
             (shown, Inr c) \<Rightarrow>
               (Spinner ''Loading pharmaceutical knowledge...'' # shown,
                Inr (st\<lparr>qa_chain := Some c\<rparr>))
           | (shown, Inl e) \<Rightarrow>
               (Spinner ''Loading pharmaceutical knowledge...'' # shown @
                  [Error (''Initialization failed: '' @ str_exc e),
                   Error (''Full error: '' @ repr_exc e),
                   Stop],
                Inl e)))"

text \<open>Lines 133 to 136: the history, which starts with the greeting.\<close>

definition session_messages :: "('e, 'd) session_state \<Rightarrow> message list" where
  "session_messages st = (case messages st of None \<Rightarrow> [greeting] | Some ms \<Rightarrow> ms)"

text \<open>Lines 142 to 162: one chat turn on a question, from the history \<open>ms\<close>.\<close>

definition chat_turn ::
  "('e, 'd::linorder) world \<Rightarrow> ('e, 'd) session_state \<Rightarrow> message list \<Rightarrow> string \<Rightarrow>
     message list \<times> ui list"
where
  "chat_turn w st ms prompt =
     (let ms' = ms @ [\<lparr>role = ''user'', content = prompt\<rparr>];
          shown = [ChatMessage ''user'', Markdown prompt,
                   ChatMessage ''assistant'', Spinner ''Thinking...'']
      in case answer w st prompt of
           Inr response \<Rightarrow>
             (ms' @ [\<lparr>role = ''assistant'', content = response\<rparr>],
              shown @ [Markdown response])
         | Inl e \<Rightarrow> (ms', shown @ [Error (''Error: '' @ str_exc e)]))"

text \<open>
  One run of the script: the session state before it and what the chat input returns
  (\<open>None\<close> when nothing was submitted), to the session state after it and what was shown.
  A failed start-up stops the run before the history and the chat input are drawn.
\<close>

definition main ::
  "('e, 'd::linorder) world \<Rightarrow> ('e, 'd) session_state \<Rightarrow> string option \<Rightarrow>
     ('e, 'd) session_state \<times> ui list"
where
  "main w st chat_input =
     (let head = [SetPageConfig ''Pharma Assistant'' pill,
                  Title (pill @ '' Pharmaceutical Assistant''),
                  Write ''Ask about medicines, symptoms, or diseases'']
      in case startup w st of
           (shown, Inl e) \<Rightarrow> (st, head @ shown)
         | (shown, Inr st1) \<Rightarrow>
             (let ms = session_messages st1;
                  history = concat (map (\<lambda>m. [ChatMessage (role m), Markdown (content m)]) ms)
              in case chat_input of
                   None \<Rightarrow> (st1\<lparr>messages := Some ms\<rparr>, head @ shown @ history)
                 | Some prompt \<Rightarrow>
                     if prompt = [] then (st1\<lparr>messages := Some ms\<rparr>, head @ shown @ history)
                     else (case chat_turn w st1 ms prompt of
                             (ms', shown') \<Rightarrow>
                               (st1\<lparr>messages := Some ms'\<rparr>,
                                head @ shown @ history @ shown'))))"

section \<open>Notions used to state the properties\<close>

text \<open>The columns that the program reads of a row of each worksheet.\<close>

definition medicine_columns :: "string list" where
  "medicine_columns =
     [''Name'', ''Generic Name'', ''Uses'', ''Side Effects'', ''Common Brands (India)'',
      ''Prescription'']"

definition disease_columns :: "string list" where
  "disease_columns = [''Name'', ''Symptoms'', ''Recommended Medicines'', ''Precautions'']"

definition symptom_columns :: "string list" where
  "symptom_columns = [''Name'', ''Associated Diseases'', ''Severity'']"

text \<open>A row has the columns \<open>cols\<close>.\<close>

definition has_columns :: "string list \<Rightarrow> pyval dict \<Rightarrow> bool" where
  "has_columns cols row = list_all (\<lambda>c. map_of row c \<noteq> None) cols"

text \<open>The type tag of a document, \<open>doc.metadata["type"]\<close> where it is there.\<close>

definition doc_type :: "document \<Rightarrow> pyval option" where
  "doc_type d = map_of (metadata d) ''type''"

section \<open>An example session\<close>

text \<open>
  A spreadsheet with three medicines, two diseases and no symptom, an embedding that maps
  a text to its length and a generation service that always gives the same answer.
\<close>

definition example_medicines :: "pyval dict list" where
  "example_medicines =
     [[(''Name'', Str ''Crocin''), (''Generic Name'', Str ''Paracetamol''),
       (''Uses'', Str ''Fever''), (''Side Effects'', Str ''Nausea''),
       (''Common Brands (India)'', Str ''Crocin, Dolo''), (''Prescription'', Str ''No'')],
      [(''Name'', Str ''Augmentin''), (''Generic Name'', Str ''Amoxicillin''),
       (''Uses'', Str ''Infection''), (''Side Effects'', Str ''Rash''),
       (''Common Brands (India)'', Str ''Augmentin''), (''Prescription'', Str ''Yes'')],
      [(''Name'', Str ''Cetzine''), (''Generic Name'', Str ''Cetirizine''),
       (''Uses'', Str ''Allergy''), (''Side Effects'', Str ''Drowsiness''),
       (''Common Brands (India)'', Str ''Cetzine, Okacet''), (''Prescription'', Integer 0)]]"

definition example_diseases :: "pyval dict list" where
  "example_diseases =
     [[(''Name'', Str ''Flu''), (''Symptoms'', Str ''Fever, cough''),
       (''Recommended Medicines'', Str ''Crocin''), (''Precautions'', Str ''Rest'')],
      [(''Name'', Str ''Hay fever''), (''Symptoms'', Str ''Sneezing''),
       (''Recommended Medicines'', Str ''Cetzine''), (''Precautions'', Str ''Avoid pollen'')]]"

definition example_sheet :: spreadsheet where
  "example_sheet name =
     (if name = ''Medicines'' then Inr example_medicines
      else if name = ''Diseases'' then Inr example_diseases
      else if name = ''Symptoms'' then Inr []
      else Inl (External name (''WorksheetNotFound('' @ repr_str name @ '')'')))"

definition example_embed :: "string \<Rightarrow> error + nat" where
  "example_embed text = Inr (length text)"

definition example_l2 :: "nat \<Rightarrow> nat \<Rightarrow> nat" where
  "example_l2 a b = (a - b) + (b - a)"

definition example_world :: "(nat, nat) world" where
  "example_world =
     \<lparr>environ = map_of [(''SPREADSHEET_ID'', ''sheet-1''), (''GROQ_API_KEY'', ''key-1'')],
      open_by_key = (\<lambda>key. Inr example_sheet),
      hf_embeddings = (\<lambda>name. Inr example_embed),
      l2 = example_l2,
      chat_groq = (\<lambda>settings. None),
      groq_invoke = (\<lambda>settings prompt. Inr ''Rest and drink water.''),
      str_hash = (\<lambda>v. 0)\<rparr>"


text \<open>The five documents of the example, and the session that the first run leaves.\<close>

definition example_crocin :: document where
  "example_crocin =
     \<lparr>page_content =
        ''Medicine: Crocin'' @ nl @ ''Generic: Paracetamol'' @ nl @ ''Uses: Fever'' @ nl @
        ''Side Effects: Nausea'' @ nl @ ''Brands: Crocin, Dolo'',
      metadata = [(''type'', Str ''medicine''), (''prescription'', Str ''No''),
                  (''brands'', Str ''Crocin, Dolo'')]\<rparr>"

definition example_augmentin :: document where
  "example_augmentin =
     \<lparr>page_content =
        ''Medicine: Augmentin'' @ nl @ ''Generic: Amoxicillin'' @ nl @ ''Uses: Infection'' @ nl @
        ''Side Effects: Rash'' @ nl @ ''Brands: Augmentin'',
      metadata = [(''type'', Str ''medicine''), (''prescription'', Str ''Yes''),
                  (''brands'', Str ''Augmentin'')]\<rparr>"

definition example_cetzine :: document where
  "example_cetzine =
     \<lparr>page_content =
        ''Medicine: Cetzine'' @ nl @ ''Generic: Cetirizine'' @ nl @ ''Uses: Allergy'' @ nl @
        ''Side Effects: Drowsiness'' @ nl @ ''Brands: Cetzine, Okacet'',
      metadata = [(''type'', Str ''medicine''), (''prescription'', Integer 0),
                  (''brands'', Str ''Cetzine, Okacet'')]\<rparr>"

definition example_flu :: document where
  "example_flu =
     \<lparr>page_content =
        ''Disease: Flu'' @ nl @ ''Symptoms: Fever, cough'' @ nl @ ''Medicines: Crocin'' @ nl @
        ''Precautions: Rest'',
      metadata = [(''type'', Str ''disease''), (''symptoms'', Str ''Fever, cough''),
                  (''medicines'', Str ''Crocin'')]\<rparr>"

definition example_hay_fever :: document where
  "example_hay_fever =
     \<lparr>page_content =
        ''Disease: Hay fever'' @ nl @ ''Symptoms: Sneezing'' @ nl @ ''Medicines: Cetzine'' @ nl @
        ''Precautions: Avoid pollen'',
      metadata = [(''type'', Str ''disease''), (''symptoms'', Str ''Sneezing''),
                  (''medicines'', Str ''Cetzine'')]\<rparr>"

definition example_docs :: "document list" where
  "example_docs =
     [example_crocin, example_augmentin, example_cetzine, example_flu, example_hay_fever]"

definition example_vectorstore :: "(nat, nat) vectorstore" where
  "example_vectorstore =
     \<lparr>entries = zip [91, 93, 100, 71, 82] example_docs,
      embedding_function = example_embed,
      metric = example_l2\<rparr>"

definition example_chain :: "(nat, nat) chain" where
  "example_chain =
     \<lparr>chain_llm = \<lparr>llm_model = ''mistral-saba-24b'', llm_temperature = 0.2,
                    llm_api_key = Some ''key-1''\<rparr>,
      chain_type = ''stuff'',
      chain_retriever = \<lparr>retriever_vectorstore = example_vectorstore, search_k = 4\<rparr>,
      chain_prompt = PROMPT_TEMPLATE,
      return_source_documents = True\<rparr>"

definition fresh_session :: "(nat, nat) session_state" where
  "fresh_session = \<lparr>qa_chain = None, messages = None\<rparr>"

definition example_session :: "(nat, nat) session_state" where
  "example_session = \<lparr>qa_chain = Some example_chain, messages = Some [greeting]\<rparr>"

text \<open>A question, the four documents nearest to it, and the answer to it.\<close>

definition example_question :: string where
  "example_question = ''What helps with fever?''"

definition example_retrieved :: "document list" where
  "example_retrieved = [example_flu, example_hay_fever, example_crocin, example_augmentin]"

definition example_result :: qa_result where
  "example_result =
     \<lparr>query = example_question,
      result = ''Rest and drink water.'',
      source_documents = Some example_retrieved\<rparr>"

definition example_response :: string where
  "example_response =
     ''Rest and drink water.'' @ nl @ nl @ ''Sources: disease, medicine'' @ disclaimer"

text \<open>
  Another run of the same session: the generation service words its answer differently
  and the process orders its sets differently.
\<close>

definition example_hash :: "pyval \<Rightarrow> int" where
  "example_hash v = (case v of Str s \<Rightarrow> - int (length s) | Integer i \<Rightarrow> i | Float r \<Rightarrow> 0)"

definition second_world :: "(nat, nat) world" where
  "second_world =
     example_world
       \<lparr>groq_invoke := (\<lambda>settings prompt. Inr ''Please see a doctor.''),
        str_hash := example_hash\<rparr>"

definition second_result :: qa_result where
  "second_result =
     \<lparr>query = example_question,
      result = ''Please see a doctor.'',
      source_documents = Some example_retrieved\<rparr>"

definition second_response :: string where
  "second_response =
     ''Please see a doctor.'' @ nl @ nl @ ''Sources: medicine, disease'' @ disclaimer"

text \<open>A run in which the generation service times out.\<close>

definition timed_out :: error where
  "timed_out = External ''Request timed out.'' ''APITimeoutError(Request timed out.)''"

definition failing_world :: "(nat, nat) world" where
  "failing_world = example_world\<lparr>groq_invoke := (\<lambda>settings prompt. Inl timed_out)\<rparr>"

text \<open>A spreadsheet whose worksheet of medicines has no column \<open>Name\<close>.\<close>

definition broken_sheet :: spreadsheet where
  "broken_sheet name =
     (if name = ''Medicines'' then Inr (map (filter (\<lambda>cell. fst cell \<noteq> ''Name'')) example_medicines)
      else example_sheet name)"

definition broken_world :: "(nat, nat) world" where
  "broken_world = example_world\<lparr>open_by_key := (\<lambda>key. Inr broken_sheet)\<rparr>"

text \<open>An embedding model that fails on a text of more than 95 characters.\<close>

definition short_embed :: "string \<Rightarrow> error + nat" where
  "short_embed text =
     (if length text \<le> 95 then Inr (length text)
      else Inl (External ''text too long'' ''RuntimeError(text too long)''))"

definition short_world :: "(nat, nat) world" where
  "short_world = example_world\<lparr>hf_embeddings := (\<lambda>name. Inr short_embed)\<rparr>"

section \<open>The configuration as the specification words it\<close>

fun nat_of_str :: "string \<Rightarrow> nat" where
  "nat_of_str s = foldl (\<lambda>n c. 10 * n + (of_char c - 48)) 0 s"

text \<open>
  The number of documents to retrieve, in the words of the specification: the option
  \<open>top_k\<close> of the session configuration, 4 when it is not given.
\<close>

definition spec_top_k :: "(string \<Rightarrow> string option) \<Rightarrow> nat" where
  "spec_top_k config = (case config ''top_k'' of None \<Rightarrow> 4 | Some s \<Rightarrow> nat_of_str s)"

text \<open>A configuration that gives \<open>top_k\<close> and \<open>temperature\<close>.\<close>

definition tuned_world :: "(nat, nat) world" where
  "tuned_world =
     example_world
       \<lparr>environ := map_of [(''SPREADSHEET_ID'', ''sheet-1''), (''GROQ_API_KEY'', ''key-1''),
                          (''top_k'', ''7''), (''temperature'', ''0.9'')]\<rparr>"

section \<open>Loading: one document per row\<close>

lemma medicine_doc_ok:
  assumes "has_columns medicine_columns row"
  shows "\<exists>d. medicine_doc row = Inr d \<and> doc_type d = Some (Str ''medicine'')"
  using assms
  by (auto simp: has_columns_def medicine_columns_def medicine_doc_def getitem_def doc_type_def)

lemma disease_doc_ok:
  assumes "has_columns disease_columns row"
  shows "\<exists>d. disease_doc row = Inr d \<and> doc_type d = Some (Str ''disease'')"
  using assms
  by (auto simp: has_columns_def disease_columns_def disease_doc_def getitem_def doc_type_def)

lemma symptom_doc_ok:
  assumes "has_columns symptom_columns row"
  shows "\<exists>d. symptom_doc row = Inr d \<and> doc_type d = Some (Str ''symptom'')"
  using assms
  by (auto simp: has_columns_def symptom_columns_def symptom_doc_def getitem_def doc_type_def)

lemma comprehension_ok:
  assumes "\<And>x. x \<in> set xs \<Longrightarrow> \<exists>y. f x = Inr y \<and> g y = a"
  shows "\<exists>ys. comprehension f xs = Inr ys \<and> map g ys = replicate (length xs) a"
  using assms
proof (induction xs)
  case Nil
  then show ?case by simp
next
  case (Cons x xs)
  then obtain y where y: "f x = Inr y" "g y = a" by auto
  from Cons obtain ys where "comprehension f xs = Inr ys" "map g ys = replicate (length xs) a"
    by auto
  with y show ?case by simp
qed

text \<open>
  Claim C1. When the spreadsheet opens, its three worksheets are read and every row has
  the columns of its worksheet, \<open>load_pharma_data\<close> returns one document per row: first
  those of the medicines, tagged \<open>medicine\<close>, then those of the diseases, tagged
  \<open>disease\<close>, then those of the symptoms, tagged \<open>symptom\<close>. Three medicines, two
  diseases and no symptom give five documents.
\<close>

theorem load_pharma_data_one_per_row:
  assumes sheet: "connect_to_gsheets w = Inr sheet"
    and tables: "sheet ''Medicines'' = Inr ms" "sheet ''Diseases'' = Inr ds"
      "sheet ''Symptoms'' = Inr ss"
    and columns: "list_all (has_columns medicine_columns) ms"
      "list_all (has_columns disease_columns) ds"
      "list_all (has_columns symptom_columns) ss"
  shows "\<exists>docs. load_pharma_data w = Inr docs \<and>
           length docs = length ms + length ds + length ss \<and>
           map doc_type docs =
             replicate (length ms) (Some (Str ''medicine'')) @
             replicate (length ds) (Some (Str ''disease'')) @
             replicate (length ss) (Some (Str ''symptom''))"
proof -
  have "\<exists>ys. comprehension medicine_doc ms = Inr ys \<and>
          map doc_type ys = replicate (length ms) (Some (Str ''medicine''))"
  proof (rule comprehension_ok)
    fix row assume "row \<in> set ms"
    with columns(1) have "has_columns medicine_columns row"
      by (simp add: list_all_iff)
    then show "\<exists>d. medicine_doc row = Inr d \<and> doc_type d = Some (Str ''medicine'')"
      by (rule medicine_doc_ok)
  qed
  then obtain mdocs where m: "comprehension medicine_doc ms = Inr mdocs"
      "map doc_type mdocs = replicate (length ms) (Some (Str ''medicine''))"
    by blast
  have "\<exists>ys. comprehension disease_doc ds = Inr ys \<and>
          map doc_type ys = replicate (length ds) (Some (Str ''disease''))"
  proof (rule comprehension_ok)
    fix row assume "row \<in> set ds"
    with columns(2) have "has_columns disease_columns row"
      by (simp add: list_all_iff)
    then show "\<exists>d. disease_doc row = Inr d \<and> doc_type d = Some (Str ''disease'')"
      by (rule disease_doc_ok)
  qed
  then obtain ddocs where d: "comprehension disease_doc ds = Inr ddocs"
      "map doc_type ddocs = replicate (length ds) (Some (Str ''disease''))"
    by blast
  have "\<exists>ys. comprehension symptom_doc ss = Inr ys \<and>
          map doc_type ys = replicate (length ss) (Some (Str ''symptom''))"
  proof (rule comprehension_ok)
    fix row assume "row \<in> set ss"
    with columns(3) have "has_columns symptom_columns row"
      by (simp add: list_all_iff)
    then show "\<exists>d. symptom_doc row = Inr d \<and> doc_type d = Some (Str ''symptom'')"
      by (rule symptom_doc_ok)
  qed
  then obtain sdocs where s: "comprehension symptom_doc ss = Inr sdocs"
      "map doc_type sdocs = replicate (length ss) (Some (Str ''symptom''))"
    by blast
  have "load_pharma_data w = Inr (mdocs @ ddocs @ sdocs)"
    by (simp add: load_pharma_data_def sheet tables m d s)
  moreover have "length mdocs = length ms" "length ddocs = length ds" "length sdocs = length ss"
    using m(2) d(2) s(2) by (metis length_map length_replicate)+
  ultimately show ?thesis
    using m(2) d(2) s(2) by simp
qed

theorem load_pharma_data_one_per_row_witness:
  "\<exists>docs. load_pharma_data example_world = Inr docs \<and> length docs = 5 \<and>
     map doc_type docs =
       [Some (Str ''medicine''), Some (Str ''medicine''), Some (Str ''medicine''),
        Some (Str ''disease''), Some (Str ''disease'')]"
  using load_pharma_data_one_per_row
    [of example_world example_sheet example_medicines example_diseases "[]"]
  by (simp add: connect_to_gsheets_def example_world_def example_sheet_def
      example_medicines_def example_diseases_def has_columns_def medicine_columns_def
      disease_columns_def symptom_columns_def numeral_eq_Suc)



section \<open>Steps that raise, and the library calls\<close>

lemma bind_eq_Inr: "bind m f = Inr y \<longleftrightarrow> (\<exists>x. m = Inr x \<and> f x = Inr y)"
  by (cases m) auto

lemma bind_eq_Inl: "bind m f = Inl e \<longleftrightarrow> m = Inl e \<or> (\<exists>x. m = Inr x \<and> f x = Inl e)"
  by (cases m) auto

lemma comprehension_Inr:
  "comprehension f xs = Inr ys \<Longrightarrow> list_all2 (\<lambda>x y. f x = Inr y) xs ys"
  by (induction xs arbitrary: ys) (auto simp: bind_eq_Inr)

lemma comprehension_fails:
  "x \<in> set xs \<Longrightarrow> f x = Inl e \<Longrightarrow> \<exists>e'. comprehension f xs = Inl e'"
proof (induction xs)
  case Nil
  then show ?case by simp
next
  case (Cons a xs)
  show ?case
  proof (cases "f a")
    case (Inl e')
    then show ?thesis by simp
  next
    case (Inr y)
    with Cons obtain e' where "comprehension f xs = Inl e'" by auto
    with Inr show ?thesis by simp
  qed
qed

lemma set_list_set: "set (list_set h xs) = set xs"
  by (simp add: list_set_def)

lemma distinct_list_set: "distinct (list_set h xs)"
  by (simp add: list_set_def)

lemma str_items_Inr: "str_items i vs = Inr ss \<Longrightarrow> vs = map Str ss"
  by (induction i vs arbitrary: ss rule: str_items.induct) (auto simp: bind_eq_Inr)

lemma join_vals_Inr: "join_vals sep vs = Inr j \<Longrightarrow> \<exists>ss. vs = map Str ss \<and> j = join sep ss"
  by (auto simp: join_vals_def bind_eq_Inr dest: str_items_Inr)

lemma sources_of_Inr:
  assumes "sources_of h docs = Inr srcs"
  shows "distinct srcs" and "set srcs = {t. \<exists>d\<in>set docs. doc_type d = Some t}"
    and "\<forall>d\<in>set docs. doc_type d \<noteq> None"
proof -
  from assms obtain types where types: "comprehension (\<lambda>doc. getitem (metadata doc) ''type'') docs = Inr types"
    and srcs: "srcs = list_set h types"
    by (auto simp: sources_of_def bind_eq_Inr)
  from types have "list_all2 (\<lambda>d t. doc_type d = Some t) docs types"
    by (auto dest!: comprehension_Inr elim!: list_all2_mono
        simp: getitem_def doc_type_def split: option.splits)
  then have "map doc_type docs = map Some types"
    by (induction rule: list_all2_induct) auto
  then have img: "doc_type ` set docs = Some ` set types"
    by (metis set_map)
  have mem: "t \<in> set types \<longleftrightarrow> (\<exists>d\<in>set docs. doc_type d = Some t)" for t
  proof -
    have "t \<in> set types \<longleftrightarrow> Some t \<in> Some ` set types" by auto
    also have "\<dots> \<longleftrightarrow> Some t \<in> doc_type ` set docs" by (simp only: img)
    also have "\<dots> \<longleftrightarrow> (\<exists>d\<in>set docs. doc_type d = Some t)" by (metis (no_types) image_iff)
    finally show ?thesis .
  qed
  show "distinct srcs" by (simp add: srcs distinct_list_set)
  show "set srcs = {t. \<exists>d\<in>set docs. doc_type d = Some t}"
    unfolding srcs set_list_set using mem by blast
  show "\<forall>d\<in>set docs. doc_type d \<noteq> None"
  proof
    fix d assume "d \<in> set docs"
    then have "doc_type d \<in> Some ` set types" using img by blast
    then show "doc_type d \<noteq> None" by auto
  qed
qed

lemma medicine_doc_Inr: "medicine_doc row = Inr d \<Longrightarrow> doc_type d = Some (Str ''medicine'')"
  by (auto simp: medicine_doc_def bind_eq_Inr doc_type_def)

lemma disease_doc_Inr: "disease_doc row = Inr d \<Longrightarrow> doc_type d = Some (Str ''disease'')"
  by (auto simp: disease_doc_def bind_eq_Inr doc_type_def)

lemma symptom_doc_Inr: "symptom_doc row = Inr d \<Longrightarrow> doc_type d = Some (Str ''symptom'')"
  by (auto simp: symptom_doc_def bind_eq_Inr doc_type_def)

lemma comprehension_Inr_set:
  assumes "comprehension f xs = Inr ys" and "y \<in> set ys"
  shows "\<exists>x\<in>set xs. f x = Inr y"
  using comprehension_Inr [OF assms(1)] assms(2)
  by (induction rule: list_all2_induct) auto

lemma load_pharma_data_types:
  assumes "load_pharma_data w = Inr docs" and "d \<in> set docs"
  shows "doc_type d \<in> {Some (Str ''medicine''), Some (Str ''disease''), Some (Str ''symptom'')}"
proof -
  from assms(1) obtain ms mdocs ds ddocs ss sdocs where
    m: "comprehension medicine_doc ms = Inr mdocs" and
    d: "comprehension disease_doc ds = Inr ddocs" and
    s: "comprehension symptom_doc ss = Inr sdocs" and
    docs: "docs = mdocs @ ddocs @ sdocs"
    by (auto simp: load_pharma_data_def bind_eq_Inr)
  from assms(2) docs consider "d \<in> set mdocs" | "d \<in> set ddocs" | "d \<in> set sdocs"
    by auto
  then show ?thesis
  proof cases
    case 1
    with m show ?thesis by (auto dest: comprehension_Inr_set medicine_doc_Inr)
  next
    case 2
    with d show ?thesis by (auto dest: comprehension_Inr_set disease_doc_Inr)
  next
    case 3
    with s show ?thesis by (auto dest: comprehension_Inr_set symptom_doc_Inr)
  qed
qed

lemma from_documents_Inr:
  assumes "from_documents distance docs emb = Inr vs"
  shows "map snd (entries vs) = docs" and "embedding_function vs = emb"
    and "list_all2 (\<lambda>d v. emb (page_content d) = Inr v) docs (map fst (entries vs))"
proof -
  from assms obtain vectors where v: "comprehension emb (map page_content docs) = Inr vectors"
    and vs: "vs = \<lparr>entries = zip vectors docs, embedding_function = emb, metric = distance\<rparr>"
    by (auto simp: from_documents_def bind_eq_Inr split: if_splits)
  from comprehension_Inr [OF v] have rel: "list_all2 (\<lambda>t v. emb t = Inr v) (map page_content docs) vectors" .
  then have len: "length vectors = length docs"
    by (auto dest: list_all2_lengthD)
  then show "map snd (entries vs) = docs" by (simp add: vs)
  show "embedding_function vs = emb" by (simp add: vs)
  from rel len show "list_all2 (\<lambda>d v. emb (page_content d) = Inr v) docs (map fst (entries vs))"
    by (simp add: vs list_all2_map1)
qed

lemma get_vectorstore_Inr:
  assumes "get_vectorstore w docs = Inr vs"
  shows "map snd (entries vs) = docs"
  using assms by (auto simp: get_vectorstore_def bind_eq_Inr dest: from_documents_Inr(1))

lemma similarity_search_Inr:
  assumes "similarity_search vs question n = Inr docs"
  shows "set docs \<subseteq> snd ` set (entries vs)" and "length docs \<le> n"
proof -
  from assms obtain v where
    docs: "docs = map snd (take n (sort_key (\<lambda>entry. metric vs v (fst entry)) (entries vs)))"
    by (auto simp: similarity_search_def bind_eq_Inr)
  have "set (take n (sort_key (\<lambda>entry. metric vs v (fst entry)) (entries vs))) \<subseteq> set (entries vs)"
    using set_take_subset [of n "sort_key (\<lambda>entry. metric vs v (fst entry)) (entries vs)"]
    by simp
  then show "set docs \<subseteq> snd ` set (entries vs)"
    unfolding docs by auto
  show "length docs \<le> n" by (simp add: docs)
qed

lemma create_qa_chain_Inr:
  assumes "create_qa_chain w vs = Inr c"
  shows "c = \<lparr>chain_llm = \<lparr>llm_model = ''mistral-saba-24b'', llm_temperature = 0.2,
                            llm_api_key = environ w ''GROQ_API_KEY''\<rparr>,
              chain_type = ''stuff'',
              chain_retriever = \<lparr>retriever_vectorstore = vs, search_k = 4\<rparr>,
              chain_prompt = PROMPT_TEMPLATE,
              return_source_documents = True\<rparr>"
  using assms by (auto simp: create_qa_chain_def Let_def split: option.splits)

lemma initialize_Inr:
  assumes "snd (initialize w) = Inr c"
  shows "\<exists>docs vs. load_pharma_data w = Inr docs \<and> get_vectorstore w docs = Inr vs \<and>
           create_qa_chain w vs = Inr c"
  using assms by (auto simp: initialize_def Let_def split: sum.splits)

lemma call_chain_Inr:
  assumes "call_chain w c question = Inr res"
  shows "\<exists>docs. similarity_search (retriever_vectorstore (chain_retriever c)) question
                  (search_k (chain_retriever c)) = Inr docs \<and>
           source_documents res = (if return_source_documents c then Some docs else None)"
  using assms by (auto simp: call_chain_def bind_eq_Inr)

lemma answer_Inr:
  assumes "answer w st prompt = Inr response" and "qa_chain st = Some c"
    and "return_source_documents c"
  shows "\<exists>res docs srcs.
           call_chain w c prompt = Inr res \<and> source_documents res = Some docs \<and>
           similarity_search (retriever_vectorstore (chain_retriever c)) prompt
             (search_k (chain_retriever c)) = Inr docs \<and>
           sources_of (str_hash w) docs = Inr (map Str srcs) \<and>
           response = result res @ nl @ nl @ ''Sources: '' @ join '', '' srcs @ disclaimer"
proof -
  from assms(1,2) obtain res where res: "call_chain w c prompt = Inr res"
    by (auto simp: answer_def session_chain_def bind_eq_Inr)
  from call_chain_Inr [OF res] assms(3) obtain docs where
    docs: "similarity_search (retriever_vectorstore (chain_retriever c)) prompt
             (search_k (chain_retriever c)) = Inr docs" "source_documents res = Some docs"
    by auto
  from assms(1,2) res docs(2) obtain sources joined where
    s: "sources_of (str_hash w) docs = Inr sources" and
    j: "join_vals '', '' sources = Inr joined" and
    r: "response = result res @ nl @ nl @ ''Sources: '' @ joined @ disclaimer"
    by (auto simp: answer_def session_chain_def bind_eq_Inr)
  from j obtain srcs where "sources = map Str srcs" "joined = join '', '' srcs"
    by (auto dest: join_vals_Inr)
  with res docs s r show ?thesis by blast
qed


section \<open>The example session, computed\<close>

lemmas example_defs =
  example_world_def example_sheet_def example_medicines_def example_diseases_def
  example_embed_def example_l2_def example_crocin_def example_augmentin_def
  example_cetzine_def example_flu_def example_hay_fever_def example_docs_def
  example_vectorstore_def example_chain_def example_session_def fresh_session_def
  example_question_def example_retrieved_def example_result_def example_response_def

lemma example_load: "load_pharma_data example_world = Inr example_docs"
  by (simp add: load_pharma_data_def connect_to_gsheets_def medicine_doc_def disease_doc_def
      symptom_doc_def getitem_def example_defs str_int_def str_nat.simps)

lemma example_store: "get_vectorstore example_world example_docs = Inr example_vectorstore"
  by (simp add: get_vectorstore_def from_documents_def example_defs nl_def)

lemma example_create: "create_qa_chain example_world example_vectorstore = Inr example_chain"
  by (simp add: create_qa_chain_def example_world_def example_chain_def)

lemma example_initialize: "snd (initialize example_world) = Inr example_chain"
  by (simp add: initialize_def example_load example_store example_create)

lemma example_search:
  "similarity_search example_vectorstore example_question 4 = Inr example_retrieved"
  by (simp add: similarity_search_def example_vectorstore_def example_embed_def example_l2_def
      example_docs_def example_question_def example_retrieved_def numeral_eq_Suc)

lemma example_call:
  "call_chain example_world example_chain example_question = Inr example_result"
  by (simp add: call_chain_def example_chain_def example_search)
     (simp add: example_world_def example_result_def)

lemma example_sources:
  "sources_of (str_hash example_world) example_retrieved =
     Inr [Str ''disease'', Str ''medicine'']"
  by (simp add: sources_of_def list_set_def getitem_def example_world_def example_retrieved_def
      example_flu_def example_hay_fever_def example_crocin_def example_augmentin_def)

lemma example_answer:
  "answer example_world example_session example_question = Inr example_response"
  by (simp add: answer_def session_chain_def example_session_def example_call example_sources
      join_vals_def example_result_def example_response_def)


lemma example_first_run:
  "main example_world fresh_session None =
     (example_session,
      [SetPageConfig ''Pharma Assistant'' pill,
       Title (pill @ '' Pharmaceutical Assistant''),
       Write ''Ask about medicines, symptoms, or diseases'',
       Spinner ''Loading pharmaceutical knowledge...'',
       Success ''Loaded 5 documents from Google Sheets'',
       Success ''Vector store created successfully'',
       Success ''QA chain initialized'',
       ChatMessage ''assistant'',
       Markdown (content greeting)])"
proof -
  have len: "length example_docs = 5"
    by (simp add: example_docs_def)
  have "str_nat (length example_docs) = ''5''"
    unfolding len by code_simp
  then show ?thesis
    by (simp add: main_def startup_def initialize_def example_load example_store example_create
        fresh_session_def example_session_def session_messages_def greeting_def)
qed


lemma second_answer:
  "answer second_world example_session example_question = Inr second_response"
proof -
  have call: "call_chain second_world example_chain example_question = Inr second_result"
    by (simp add: call_chain_def example_chain_def example_search)
       (simp add: second_world_def second_result_def)
  have sources: "sources_of (str_hash second_world) example_retrieved =
      Inr [Str ''medicine'', Str ''disease'']"
    by (simp add: sources_of_def list_set_def getitem_def second_world_def example_hash_def
        example_retrieved_def example_flu_def example_hay_fever_def example_crocin_def
        example_augmentin_def)
  show ?thesis
    by (simp add: answer_def session_chain_def example_session_def call sources
        join_vals_def second_result_def second_response_def)
qed


section \<open>The cited source types\<close>

text \<open>
  Claim C2. In a chat turn that answers its question, the response is the generated text,
  a blank line, \<open>Sources:\<close> and the cited types joined by commas, then the disclaimer.
  The cited types are pairwise distinct and are exactly the type tags of the documents
  retrieved for the question; every retrieved document has a type tag.
\<close>

theorem answer_cites_retrieved_types:
  assumes "answer w st prompt = Inr response"
    and "session_chain st = Inr c"
    and "call_chain w c prompt = Inr res"
    and "source_documents res = Some docs"
  shows "\<exists>srcs. response = result res @ nl @ nl @ ''Sources: '' @ join '', '' srcs @ disclaimer \<and>
           distinct srcs \<and>
           Str ` set srcs = {t. \<exists>d\<in>set docs. doc_type d = Some t} \<and>
           (\<forall>d\<in>set docs. doc_type d \<noteq> None)"
proof -
  from assms obtain sources joined where s: "sources_of (str_hash w) docs = Inr sources"
    and j: "join_vals '', '' sources = Inr joined"
    and r: "response = result res @ nl @ nl @ ''Sources: '' @ joined @ disclaimer"
    by (auto simp: answer_def bind_eq_Inr)
  from j obtain srcs where srcs: "sources = map Str srcs" "joined = join '', '' srcs"
    by (auto dest: join_vals_Inr)
  from sources_of_Inr [OF s] srcs(1) have "distinct srcs"
    and "Str ` set srcs = {t. \<exists>d\<in>set docs. doc_type d = Some t}"
    and "\<forall>d\<in>set docs. doc_type d \<noteq> None"
    by (auto simp: distinct_map)
  with r srcs(2) show ?thesis by blast
qed


theorem answer_cites_retrieved_types_witness:
  "answer example_world example_session example_question = Inr example_response \<and>
   session_chain example_session = Inr example_chain \<and>
   call_chain example_world example_chain example_question = Inr example_result \<and>
   source_documents example_result = Some example_retrieved \<and>
   (\<exists>srcs. example_response =
        result example_result @ nl @ nl @ ''Sources: '' @ join '', '' srcs @ disclaimer \<and>
      distinct srcs \<and>
      Str ` set srcs = {t. \<exists>d\<in>set example_retrieved. doc_type d = Some t} \<and>
      (\<forall>d\<in>set example_retrieved. doc_type d \<noteq> None))"
proof -
  have chain: "session_chain example_session = Inr example_chain"
    by (simp add: session_chain_def example_session_def)
  have docs: "source_documents example_result = Some example_retrieved"
    by (simp add: example_result_def)
  from answer_cites_retrieved_types [OF example_answer chain example_call docs]
    example_answer chain example_call docs
  show ?thesis by (intro conjI)
qed


text \<open>
  Claim C3. Let the chain of the session be one that the start-up built, from the
  documents of \<open>load_pharma_data\<close>. In a chat turn that answers its question, the cited
  types are among \<open>medicine\<close>, \<open>disease\<close> and \<open>symptom\<close>, and there are at most as
  many of them as the chain retrieves documents, which is 4.
\<close>

theorem cited_types_bounded:
  assumes built: "snd (initialize w0) = Inr c"
    and session: "qa_chain st = Some c"
    and answered: "answer w st prompt = Inr response"
  shows "\<exists>res docs srcs.
           call_chain w c prompt = Inr res \<and> source_documents res = Some docs \<and>
           response = result res @ nl @ nl @ ''Sources: '' @ join '', '' srcs @ disclaimer \<and>
           Str ` set srcs = {t. \<exists>d\<in>set docs. doc_type d = Some t} \<and>
           set srcs \<subseteq> {''medicine'', ''disease'', ''symptom''} \<and>
           card (set srcs) \<le> search_k (chain_retriever c) \<and>
           search_k (chain_retriever c) = 4"
proof -
  from initialize_Inr [OF built] obtain docs0 vs where
    loaded: "load_pharma_data w0 = Inr docs0" and
    store: "get_vectorstore w0 docs0 = Inr vs" and
    chain: "create_qa_chain w0 vs = Inr c"
    by blast
  note c = create_qa_chain_Inr [OF chain]
  have rsd: "return_source_documents c" and k: "search_k (chain_retriever c) = 4"
    and cvs: "retriever_vectorstore (chain_retriever c) = vs"
    by (subst c, simp)+
  from answer_Inr [OF answered session rsd] obtain res docs srcs where
    res: "call_chain w c prompt = Inr res" "source_documents res = Some docs" and
    found: "similarity_search vs prompt 4 = Inr docs" and
    srcs: "sources_of (str_hash w) docs = Inr (map Str srcs)" and
    r: "response = result res @ nl @ nl @ ''Sources: '' @ join '', '' srcs @ disclaimer"
    unfolding k cvs by blast
  from sources_of_Inr(2) [OF srcs]
  have types: "Str ` set srcs = {t. \<exists>d\<in>set docs. doc_type d = Some t}" by simp
  from similarity_search_Inr [OF found] get_vectorstore_Inr [OF store]
  have sub: "set docs \<subseteq> set docs0" and len: "length docs \<le> 4"
    by (auto simp flip: set_map)
  have "set srcs \<subseteq> {''medicine'', ''disease'', ''symptom''}"
  proof
    fix t assume "t \<in> set srcs"
    then have "Str t \<in> Str ` set srcs" by blast
    with types obtain d where "d \<in> set docs" "doc_type d = Some (Str t)" by auto
    with sub load_pharma_data_types [OF loaded, of d] show "t \<in> {''medicine'', ''disease'', ''symptom''}"
      by auto
  qed
  moreover have "card (set srcs) \<le> 4"
  proof -
    have "Str ` set srcs \<subseteq> (\<lambda>d. the (doc_type d)) ` set docs"
      unfolding types by force
    then have "card (Str ` set srcs) \<le> card ((\<lambda>d. the (doc_type d)) ` set docs)"
      by (intro card_mono) auto
    also have "\<dots> \<le> card (set docs)" by (intro card_image_le) auto
    also have "\<dots> \<le> length docs" by (rule card_length)
    finally have "card (Str ` set srcs) \<le> 4" using len by simp
    moreover have "card (Str ` set srcs) = card (set srcs)"
      by (intro card_image) (auto simp: inj_on_def)
    ultimately show ?thesis by simp
  qed
  ultimately show ?thesis using res r types k by auto
qed

theorem cited_types_bounded_witness:
  "snd (initialize example_world) = Inr example_chain \<and>
   qa_chain example_session = Some example_chain \<and>
   answer example_world example_session example_question = Inr example_response \<and>
   (\<exists>res docs srcs.
      call_chain example_world example_chain example_question = Inr res \<and>
      source_documents res = Some docs \<and>
      example_response = result res @ nl @ nl @ ''Sources: '' @ join '', '' srcs @ disclaimer \<and>
      Str ` set srcs = {t. \<exists>d\<in>set docs. doc_type d = Some t} \<and>
      set srcs \<subseteq> {''medicine'', ''disease'', ''symptom''} \<and>
      card (set srcs) \<le> search_k (chain_retriever example_chain) \<and>
      search_k (chain_retriever example_chain) = 4)"
proof -
  have session: "qa_chain example_session = Some example_chain"
    by (simp add: example_session_def)
  from cited_types_bounded [OF example_initialize session example_answer]
    example_initialize session example_answer
  show ?thesis by (intro conjI)
qed


text \<open>
  Claim C4. Let the session hold a chain that returns its source documents, as every chain
  built by \<open>create_qa_chain\<close> does. When two runs answer the same question from that
  session, both retrieve the same documents and cite the same set of types, whatever the
  generation service answered and whatever the order of the set in each run.
\<close>

theorem cited_types_rerun:
  assumes session: "qa_chain st = Some c" and "return_source_documents c"
    and first: "answer w1 st prompt = Inr response1"
    and second: "answer w2 st prompt = Inr response2"
  shows "\<exists>res1 res2 docs srcs1 srcs2.
           call_chain w1 c prompt = Inr res1 \<and> source_documents res1 = Some docs \<and>
           call_chain w2 c prompt = Inr res2 \<and> source_documents res2 = Some docs \<and>
           response1 = result res1 @ nl @ nl @ ''Sources: '' @ join '', '' srcs1 @ disclaimer \<and>
           response2 = result res2 @ nl @ nl @ ''Sources: '' @ join '', '' srcs2 @ disclaimer \<and>
           set srcs1 = set srcs2"
proof -
  from answer_Inr [OF first session assms(2)] obtain res1 docs1 srcs1 where
    1: "call_chain w1 c prompt = Inr res1" "source_documents res1 = Some docs1"
       "similarity_search (retriever_vectorstore (chain_retriever c)) prompt
          (search_k (chain_retriever c)) = Inr docs1"
       "sources_of (str_hash w1) docs1 = Inr (map Str srcs1)"
       "response1 = result res1 @ nl @ nl @ ''Sources: '' @ join '', '' srcs1 @ disclaimer"
    by blast
  from answer_Inr [OF second session assms(2)] obtain res2 docs2 srcs2 where
    2: "call_chain w2 c prompt = Inr res2" "source_documents res2 = Some docs2"
       "similarity_search (retriever_vectorstore (chain_retriever c)) prompt
          (search_k (chain_retriever c)) = Inr docs2"
       "sources_of (str_hash w2) docs2 = Inr (map Str srcs2)"
       "response2 = result res2 @ nl @ nl @ ''Sources: '' @ join '', '' srcs2 @ disclaimer"
    by blast
  from 1(3) 2(3) have same: "docs2 = docs1" by simp
  from sources_of_Inr(2) [OF 1(4)] sources_of_Inr(2) [OF 2(4)] same
  have "Str ` set srcs1 = Str ` set srcs2" by simp
  then have "set srcs1 = set srcs2"
    by (simp add: inj_image_eq_iff inj_on_def)
  with 1 2 same show ?thesis by blast
qed



theorem cited_types_rerun_witness:
  "qa_chain example_session = Some example_chain \<and>
   return_source_documents example_chain \<and>
   answer example_world example_session example_question = Inr example_response \<and>
   answer second_world example_session example_question = Inr second_response \<and>
   example_response \<noteq> second_response \<and>
   (\<exists>res1 res2 docs srcs1 srcs2.
      call_chain example_world example_chain example_question = Inr res1 \<and>
      source_documents res1 = Some docs \<and>
      call_chain second_world example_chain example_question = Inr res2 \<and>
      source_documents res2 = Some docs \<and>
      example_response = result res1 @ nl @ nl @ ''Sources: '' @ join '', '' srcs1 @ disclaimer \<and>
      second_response = result res2 @ nl @ nl @ ''Sources: '' @ join '', '' srcs2 @ disclaimer \<and>
      set srcs1 = set srcs2)"
proof -
  have session: "qa_chain example_session = Some example_chain"
    by (simp add: example_session_def)
  have returns: "return_source_documents example_chain"
    by (simp add: example_chain_def)
  have differ: "example_response \<noteq> second_response"
    by (simp add: example_response_def second_response_def)
  from cited_types_rerun [OF session returns example_answer second_answer]
    session returns example_answer second_answer differ
  show ?thesis by (intro conjI)
qed


section \<open>A chat turn\<close>

lemma startup_Inr:
  assumes "startup w st = (shown, Inr st1)"
  shows "messages st1 = messages st" and "qa_chain st1 \<noteq> None"
    and "Stop \<notin> set shown" and "qa_chain st \<noteq> None \<Longrightarrow> st1 = st \<and> shown = []"
  using assms
  by (auto simp: startup_def initialize_def Let_def split: option.splits sum.splits prod.splits)

lemma startup_session_messages:
  "startup w st = (shown, Inr st1) \<Longrightarrow> session_messages st1 = session_messages st"
  by (simp add: session_messages_def startup_Inr(1))

lemma main_turn:
  assumes "startup w st = (shown, Inr st1)" and "prompt \<noteq> []"
  shows "main w st (Some prompt) =
           (st1\<lparr>messages := Some (fst (chat_turn w st1 (session_messages st) prompt))\<rparr>,
            [SetPageConfig ''Pharma Assistant'' pill,
             Title (pill @ '' Pharmaceutical Assistant''),
             Write ''Ask about medicines, symptoms, or diseases''] @ shown @
            concat (map (\<lambda>m. [ChatMessage (role m), Markdown (content m)]) (session_messages st)) @
            snd (chat_turn w st1 (session_messages st) prompt))"
  using assms startup_session_messages [OF assms(1)]
  by (simp add: main_def Let_def split: prod.splits)

lemma suffix_disclaimer:
  "suffix (warning_sign @ '' Disclaimer: Consult a doctor before taking any medication.'')
     (text @ disclaimer)"
  unfolding disclaimer_def by (simp add: suffix_def) 

lemma answer_ends_with_disclaimer:
  "answer w st prompt = Inr response \<Longrightarrow> suffix disclaimer response"
  by (auto simp: answer_def bind_eq_Inr suffix_def)

lemma answer_same_chain:
  "qa_chain st' = qa_chain st \<Longrightarrow> answer w st' prompt = answer w st prompt"
  by (simp add: answer_def session_chain_def)

lemma startup_initialised:
  "qa_chain st = Some c \<Longrightarrow> startup w st = ([], Inr st)"
  by (simp add: startup_def)


lemma example_startup: "startup example_world example_session = ([], Inr example_session)"
  by (simp add: startup_def example_session_def)

lemma failing_startup: "startup failing_world example_session = ([], Inr example_session)"
  by (simp add: startup_def example_session_def)

lemma example_history: "session_messages example_session = [greeting]"
  by (simp add: session_messages_def example_session_def)

lemma example_question_nonempty: "example_question \<noteq> []"
  by (simp add: example_question_def)

lemma failing_answer:
  "answer failing_world example_session example_question = Inl timed_out"
proof -
  have "call_chain failing_world example_chain example_question = Inl timed_out"
    by (simp add: call_chain_def example_chain_def example_search)
       (simp add: failing_world_def)
  then show ?thesis
    by (simp add: answer_def session_chain_def example_session_def)
qed


text \<open>
  Claim C5. In a run whose start-up succeeds (or was done by an earlier run) and whose chat
  turn answers its question, the history after the run is the history before it, then the
  message of the user, then the message of the assistant; the message of the assistant
  ends with the disclaimer, and it is the last element shown.
\<close>

theorem successful_turn_appends_both:
  assumes "startup w st = (shown, Inr st1)" and "prompt \<noteq> []"
    and "answer w st1 prompt = Inr response"
  shows "messages (fst (main w st (Some prompt))) =
           Some (session_messages st @
                 [\<lparr>role = ''user'', content = prompt\<rparr>,
                  \<lparr>role = ''assistant'', content = response\<rparr>]) \<and>
         suffix disclaimer response \<and>
         suffix (warning_sign @ '' Disclaimer: Consult a doctor before taking any medication.'')
           response \<and>
         last (snd (main w st (Some prompt))) = Markdown response"
proof -
  from assms(3) have d: "suffix disclaimer response"
    by (rule answer_ends_with_disclaimer)
  then obtain body where "response = body @ disclaimer"
    by (auto simp: suffix_def)
  then have "suffix (warning_sign @ '' Disclaimer: Consult a doctor before taking any medication.'')
      response"
    using suffix_disclaimer by simp
  with d show ?thesis
    by (simp add: main_turn [OF assms(1,2)] chat_turn_def assms(3))
qed


theorem successful_turn_appends_both_witness:
  "startup example_world example_session = ([], Inr example_session) \<and>
   example_question \<noteq> [] \<and>
   answer example_world example_session example_question = Inr example_response \<and>
   messages (fst (main example_world example_session (Some example_question))) =
     Some [greeting,
           \<lparr>role = ''user'', content = example_question\<rparr>,
           \<lparr>role = ''assistant'', content = example_response\<rparr>] \<and>
   suffix disclaimer example_response \<and>
   suffix (warning_sign @ '' Disclaimer: Consult a doctor before taking any medication.'')
     example_response \<and>
   last (snd (main example_world example_session (Some example_question))) =
     Markdown example_response"
  using successful_turn_appends_both
    [OF example_startup example_question_nonempty example_answer]
    example_startup example_question_nonempty example_answer
  by (simp add: example_history)


text \<open>
  Claim C6. Let the session hold a chain, and let the answering of a question raise (as it
  does when the generation service fails). Then the run changes nothing of the session but
  the history, to which it appends the question: the earlier messages and the chain, with
  its index, stay as they were. The last element shown is the error, and the run is not
  stopped. A later run on the session it leaves, whose answering succeeds, appends its
  question and its answer as usual.
\<close>

theorem generation_error_is_local:
  assumes "qa_chain st = Some c" and "prompt \<noteq> []" and "answer w st prompt = Inl e"
  shows "fst (main w st (Some prompt)) =
           st\<lparr>messages := Some (session_messages st @ [\<lparr>role = ''user'', content = prompt\<rparr>])\<rparr> \<and>
         last (snd (main w st (Some prompt))) = Error (''Error: '' @ str_exc e) \<and>
         Stop \<notin> set (snd (main w st (Some prompt))) \<and>
         (\<forall>w' prompt' response'.
            prompt' \<noteq> [] \<and> answer w' (fst (main w st (Some prompt))) prompt' = Inr response' \<longrightarrow>
            fst (main w' (fst (main w st (Some prompt))) (Some prompt')) =
              st\<lparr>messages :=
                   Some (session_messages st @
                         [\<lparr>role = ''user'', content = prompt\<rparr>,
                          \<lparr>role = ''user'', content = prompt'\<rparr>,
                          \<lparr>role = ''assistant'', content = response'\<rparr>])\<rparr>)"
proof -
  let ?st' = "st\<lparr>messages := Some (session_messages st @ [\<lparr>role = ''user'', content = prompt\<rparr>])\<rparr>"
  have run: "main w st (Some prompt) =
      (?st',
       [SetPageConfig ''Pharma Assistant'' pill,
        Title (pill @ '' Pharmaceutical Assistant''),
        Write ''Ask about medicines, symptoms, or diseases''] @
       concat (map (\<lambda>m. [ChatMessage (role m), Markdown (content m)]) (session_messages st)) @
       [ChatMessage ''user'', Markdown prompt, ChatMessage ''assistant'',
        Spinner ''Thinking...'', Error (''Error: '' @ str_exc e)])"
    using main_turn [OF startup_initialised [OF assms(1)] assms(2)]
    by (simp add: chat_turn_def assms(3))
  have chain': "qa_chain ?st' = Some c"
    using assms(1) by simp
  have next_turn: "fst (main w' ?st' (Some prompt')) =
      st\<lparr>messages :=
           Some (session_messages st @
                 [\<lparr>role = ''user'', content = prompt\<rparr>,
                  \<lparr>role = ''user'', content = prompt'\<rparr>,
                  \<lparr>role = ''assistant'', content = response'\<rparr>])\<rparr>"
    if "prompt' \<noteq> []" and "answer w' ?st' prompt' = Inr response'" for w' prompt' response'
    using main_turn [OF startup_initialised [OF chain'] that(1)] that(2)
    by (simp add: chat_turn_def session_messages_def)
  show ?thesis
    unfolding run using next_turn by (auto simp del: fun_upd_apply)
qed


theorem generation_error_is_local_witness:
  "qa_chain example_session = Some example_chain \<and>
   example_question \<noteq> [] \<and>
   answer failing_world example_session example_question = Inl timed_out \<and>
   fst (main failing_world example_session (Some example_question)) =
     \<lparr>qa_chain = Some example_chain,
      messages = Some [greeting, \<lparr>role = ''user'', content = example_question\<rparr>]\<rparr> \<and>
   last (snd (main failing_world example_session (Some example_question))) =
     Error ''Error: Request timed out.'' \<and>
   Stop \<notin> set (snd (main failing_world example_session (Some example_question))) \<and>
   answer example_world (fst (main failing_world example_session (Some example_question)))
     example_question = Inr example_response \<and>
   fst (main example_world (fst (main failing_world example_session (Some example_question)))
          (Some example_question)) =
     \<lparr>qa_chain = Some example_chain,
      messages = Some [greeting,
                       \<lparr>role = ''user'', content = example_question\<rparr>,
                       \<lparr>role = ''user'', content = example_question\<rparr>,
                       \<lparr>role = ''assistant'', content = example_response\<rparr>]\<rparr>"
proof -
  have session: "qa_chain example_session = Some example_chain"
    by (simp add: example_session_def)
  note local = generation_error_is_local [OF session example_question_nonempty failing_answer]
  let ?st = "fst (main failing_world example_session (Some example_question))"
  from local have st: "?st =
      \<lparr>qa_chain = Some example_chain,
       messages = Some [greeting, \<lparr>role = ''user'', content = example_question\<rparr>]\<rparr>"
    by (simp add: session_messages_def example_session_def)
  have again: "answer example_world ?st example_question = Inr example_response"
    unfolding st using example_answer
    by (simp add: answer_def session_chain_def example_session_def)
  from local again example_question_nonempty
  have "fst (main example_world ?st (Some example_question)) =
      example_session
        \<lparr>messages :=
           Some (session_messages example_session @
                 [\<lparr>role = ''user'', content = example_question\<rparr>,
                  \<lparr>role = ''user'', content = example_question\<rparr>,
                  \<lparr>role = ''assistant'', content = example_response\<rparr>])\<rparr>"
    by blast
  then have next_turn: "fst (main example_world ?st (Some example_question)) =
      \<lparr>qa_chain = Some example_chain,
       messages = Some [greeting,
                        \<lparr>role = ''user'', content = example_question\<rparr>,
                        \<lparr>role = ''user'', content = example_question\<rparr>,
                        \<lparr>role = ''assistant'', content = example_response\<rparr>]\<rparr>"
    by (simp add: session_messages_def example_session_def)
  from local have shown: "last (snd (main failing_world example_session (Some example_question))) =
      Error ''Error: Request timed out.''"
    and running: "Stop \<notin> set (snd (main failing_world example_session (Some example_question)))"
    by (simp_all add: timed_out_def)
  from session example_question_nonempty failing_answer st shown running again next_turn
  show ?thesis by (intro conjI)
qed


text \<open>
  Claim C10. In a run whose start-up succeeds and whose chat input holds a question, the
  history grows by the message of the user alone when the answering raises, and by the
  message of the user followed by that of the assistant when it returns.
\<close>

theorem history_growth:
  assumes "startup w st = (shown, Inr st1)" and "prompt \<noteq> []"
  shows "messages (fst (main w st (Some prompt))) =
           Some (session_messages st @
                 (case answer w st1 prompt of
                    Inl e \<Rightarrow> [\<lparr>role = ''user'', content = prompt\<rparr>]
                  | Inr response \<Rightarrow>
                      [\<lparr>role = ''user'', content = prompt\<rparr>,
                       \<lparr>role = ''assistant'', content = response\<rparr>]))"
  by (simp add: main_turn [OF assms] chat_turn_def split: sum.splits)


theorem history_growth_witness:
  "startup example_world example_session = ([], Inr example_session) \<and>
   startup failing_world example_session = ([], Inr example_session) \<and>
   example_question \<noteq> [] \<and>
   messages (fst (main example_world example_session (Some example_question))) =
     Some [greeting,
           \<lparr>role = ''user'', content = example_question\<rparr>,
           \<lparr>role = ''assistant'', content = example_response\<rparr>] \<and>
   messages (fst (main failing_world example_session (Some example_question))) =
     Some [greeting, \<lparr>role = ''user'', content = example_question\<rparr>]"
  using history_growth [OF example_startup example_question_nonempty]
    history_growth [OF failing_startup example_question_nonempty]
    example_startup failing_startup example_question_nonempty
  by (simp add: example_history example_answer failing_answer)


section \<open>The start-up\<close>

lemma startup_fails:
  assumes "qa_chain st = None"
    and "load_pharma_data w = Inl e \<or>
         (\<exists>docs. load_pharma_data w = Inr docs \<and> get_vectorstore w docs = Inl e)"
  shows "\<exists>shown. startup w st =
           (Spinner ''Loading pharmaceutical knowledge...'' # shown @
              [Error (''Initialization failed: '' @ str_exc e),
               Error (''Full error: '' @ repr_exc e),
               Stop],
            Inl e) \<and>
           (\<forall>x\<in>set shown. \<exists>s. x = Success s)"
  using assms by (auto simp: startup_def initialize_def Let_def)

lemma missing_column_raises:
  assumes "\<not> has_columns cols row"
  shows "\<exists>k\<in>set cols. getitem row k = Inl (KeyError k)"
  using assms by (force simp: has_columns_def list_all_iff getitem_def)

lemma broken_load: "load_pharma_data broken_world = Inl (KeyError ''Name'')"
  by (simp add: load_pharma_data_def connect_to_gsheets_def broken_world_def broken_sheet_def
      example_world_def example_medicines_def medicine_doc_def getitem_def)

lemma comprehension_Inl: "comprehension f xs = Inl e \<Longrightarrow> \<exists>x\<in>set xs. f x = Inl e"
  by (induction xs) (auto simp: bind_eq_Inl)

lemma getitem_Inl: "getitem row k = Inl e \<Longrightarrow> e = KeyError k \<and> map_of row k = None"
  by (auto simp: getitem_def split: option.splits)

lemma medicine_doc_Inl:
  "medicine_doc row = Inl e \<Longrightarrow> \<exists>k\<in>set medicine_columns. e = KeyError k \<and> map_of row k = None"
  by (auto simp: medicine_doc_def bind_eq_Inl medicine_columns_def dest!: getitem_Inl)

lemma disease_doc_Inl:
  "disease_doc row = Inl e \<Longrightarrow> \<exists>k\<in>set disease_columns. e = KeyError k \<and> map_of row k = None"
  by (auto simp: disease_doc_def bind_eq_Inl disease_columns_def dest!: getitem_Inl)

lemma symptom_doc_Inl:
  "symptom_doc row = Inl e \<Longrightarrow> \<exists>k\<in>set symptom_columns. e = KeyError k \<and> map_of row k = None"
  by (auto simp: symptom_doc_def bind_eq_Inl symptom_columns_def dest!: getitem_Inl)

lemma medicine_doc_Inr_columns: "medicine_doc row = Inr d \<Longrightarrow> has_columns medicine_columns row"
  by (auto simp: medicine_doc_def bind_eq_Inr medicine_columns_def has_columns_def getitem_def
      split: option.splits)

lemma disease_doc_Inr_columns: "disease_doc row = Inr d \<Longrightarrow> has_columns disease_columns row"
  by (auto simp: disease_doc_def bind_eq_Inr disease_columns_def has_columns_def getitem_def
      split: option.splits)

lemma symptom_doc_Inr_columns: "symptom_doc row = Inr d \<Longrightarrow> has_columns symptom_columns row"
  by (auto simp: symptom_doc_def bind_eq_Inr symptom_columns_def has_columns_def getitem_def
      split: option.splits)

lemma comprehension_Inr_all:
  assumes "comprehension f xs = Inr ys" and "x \<in> set xs"
  shows "\<exists>y. f x = Inr y"
  using comprehension_Inr [OF assms(1)] assms(2)
  by (induction rule: list_all2_induct) auto

lemma load_pharma_data_missing_column:
  assumes sheet: "connect_to_gsheets w = Inr sheet"
    and tables: "sheet ''Medicines'' = Inr ms" "sheet ''Diseases'' = Inr ds"
      "sheet ''Symptoms'' = Inr ss"
    and missing: "\<not> (list_all (has_columns medicine_columns) ms \<and>
                      list_all (has_columns disease_columns) ds \<and>
                      list_all (has_columns symptom_columns) ss)"
  shows "\<exists>k. load_pharma_data w = Inl (KeyError k)"
proof (cases "load_pharma_data w")
  case (Inl e)
  then consider "comprehension medicine_doc ms = Inl e" | "comprehension disease_doc ds = Inl e"
    | "comprehension symptom_doc ss = Inl e"
    by (auto simp: load_pharma_data_def sheet tables bind_eq_Inl)
  then have "\<exists>k. e = KeyError k"
    by cases (auto dest!: comprehension_Inl medicine_doc_Inl disease_doc_Inl symptom_doc_Inl)
  with Inl show ?thesis by auto
next
  case (Inr docs)
  then obtain mdocs ddocs sdocs where
    m: "comprehension medicine_doc ms = Inr mdocs" and
    d: "comprehension disease_doc ds = Inr ddocs" and
    s: "comprehension symptom_doc ss = Inr sdocs"
    by (auto simp: load_pharma_data_def sheet tables bind_eq_Inr)
  have "list_all (has_columns medicine_columns) ms"
    unfolding list_all_iff using comprehension_Inr_all [OF m] medicine_doc_Inr_columns by blast
  moreover have "list_all (has_columns disease_columns) ds"
    unfolding list_all_iff using comprehension_Inr_all [OF d] disease_doc_Inr_columns by blast
  moreover have "list_all (has_columns symptom_columns) ss"
    unfolding list_all_iff using comprehension_Inr_all [OF s] symptom_doc_Inr_columns by blast
  ultimately show ?thesis using missing by simp
qed

lemma get_vectorstore_fails:
  assumes "hf_embeddings w ''sentence-transformers/all-mpnet-base-v2'' = Inr emb"
    and "d \<in> set docs" and "emb (page_content d) = Inl e"
  shows "\<exists>e'. get_vectorstore w docs = Inl e'"
proof -
  from assms(2) have "page_content d \<in> set (map page_content docs)" by simp
  from comprehension_fails [of "page_content d" "map page_content docs" emb e, OF this assms(3)]
  obtain e' where "comprehension emb (map page_content docs) = Inl e'" by blast
  then show ?thesis
    by (simp add: get_vectorstore_def assms(1) from_documents_def)
qed

lemma get_vectorstore_complete:
  assumes "hf_embeddings w ''sentence-transformers/all-mpnet-base-v2'' = Inr emb"
    and "get_vectorstore w docs = Inr vs"
  shows "map snd (entries vs) = docs"
    and "list_all2 (\<lambda>d v. emb (page_content d) = Inr v) docs (map fst (entries vs))"
  using assms from_documents_Inr(1,3) [of "l2 w" docs emb vs]
  by (simp_all add: get_vectorstore_def)

lemma short_store_fails:
  "get_vectorstore short_world example_docs = Inl (External ''text too long'' ''RuntimeError(text too long)'')"
  by (simp add: get_vectorstore_def from_documents_def short_world_def short_embed_def
      example_defs nl_def)

lemma short_load: "load_pharma_data short_world = Inr example_docs"
  using example_load
  by (simp add: load_pharma_data_def connect_to_gsheets_def short_world_def example_world_def)


text \<open>
  Claim C7. Let the session hold no chain, and let the loading of the documents raise, or
  the building of the vector store raise on the documents loaded. Then, whatever the chat
  input holds, the run leaves the session as it was, with no chain and an untouched
  history, and shows, last, the two error messages with the \<open>str\<close> and the \<open>repr\<close> of
  the exception, then stops: before them no chat bubble and no message is drawn. A row
  without a column that the program reads makes the loading raise \<open>KeyError\<close> (lemma
  \<open>load_pharma_data_missing_column\<close>), which is the case of the example.
\<close>

theorem startup_failure_halts:
  assumes "qa_chain st = None"
    and "load_pharma_data w = Inl e \<or>
         (\<exists>docs. load_pharma_data w = Inr docs \<and> get_vectorstore w docs = Inl e)"
  shows "fst (main w st chat_input) = st \<and>
         (\<exists>shown. snd (main w st chat_input) =
            shown @ [Error (''Initialization failed: '' @ str_exc e),
                     Error (''Full error: '' @ repr_exc e),
                     Stop] \<and>
            Stop \<notin> set shown \<and>
            (\<forall>r. ChatMessage r \<notin> set shown) \<and> (\<forall>s. Markdown s \<notin> set shown))"
proof -
  from startup_fails [OF assms] obtain shown where
    s: "startup w st =
          (Spinner ''Loading pharmaceutical knowledge...'' # shown @
             [Error (''Initialization failed: '' @ str_exc e),
              Error (''Full error: '' @ repr_exc e),
              Stop],
           Inl e)"
    and ok: "\<forall>x\<in>set shown. \<exists>s. x = Success s"
    by blast
  let ?shown = "[SetPageConfig ''Pharma Assistant'' pill,
                 Title (pill @ '' Pharmaceutical Assistant''),
                 Write ''Ask about medicines, symptoms, or diseases'',
                 Spinner ''Loading pharmaceutical knowledge...''] @ shown"
  have "main w st chat_input =
      (st, ?shown @ [Error (''Initialization failed: '' @ str_exc e),
                     Error (''Full error: '' @ repr_exc e),
                     Stop])"
    by (simp add: main_def s)
  moreover have "Stop \<notin> set ?shown" "\<forall>r. ChatMessage r \<notin> set ?shown"
    "\<forall>s. Markdown s \<notin> set ?shown"
    using ok by auto
  ultimately show ?thesis
    by (metis fst_conv snd_conv)
qed

theorem startup_failure_halts_witness:
  "qa_chain fresh_session = None \<and>
   load_pharma_data broken_world = Inl (KeyError ''Name'') \<and>
   fst (main broken_world fresh_session (Some example_question)) = fresh_session \<and>
   snd (main broken_world fresh_session (Some example_question)) =
     [SetPageConfig ''Pharma Assistant'' pill,
      Title (pill @ '' Pharmaceutical Assistant''),
      Write ''Ask about medicines, symptoms, or diseases'',
      Spinner ''Loading pharmaceutical knowledge...'',
      Error (''Initialization failed: '' @ repr_str ''Name''),
      Error (''Full error: KeyError('' @ repr_str ''Name'' @ '')''),
      Stop]"
proof -
  have fresh: "qa_chain fresh_session = None"
    by (simp add: fresh_session_def)
  have fails: "load_pharma_data broken_world = Inl (KeyError ''Name'') \<or>
      (\<exists>docs. load_pharma_data broken_world = Inr docs \<and>
         get_vectorstore broken_world docs = Inl (KeyError ''Name''))"
    by (simp add: broken_load)
  from startup_failure_halts [OF fresh fails, of "Some example_question"]
  have "fst (main broken_world fresh_session (Some example_question)) = fresh_session"
    by blast
  moreover have "snd (main broken_world fresh_session (Some example_question)) =
     [SetPageConfig ''Pharma Assistant'' pill,
      Title (pill @ '' Pharmaceutical Assistant''),
      Write ''Ask about medicines, symptoms, or diseases'',
      Spinner ''Loading pharmaceutical knowledge...'',
      Error (''Initialization failed: '' @ repr_str ''Name''),
      Error (''Full error: KeyError('' @ repr_str ''Name'' @ '')''),
      Stop]"
    by (simp add: main_def startup_def initialize_def broken_load fresh)
  ultimately show ?thesis
    using fresh broken_load by (intro conjI)
qed



text \<open>
  Claim C9. Let the embedding model load, and let the embedding of the content of one of
  the documents raise. Then the building of the vector store raises, and a run that loads
  these documents into a session without a chain leaves the session without a chain, shows
  the error and stops. Whenever the building returns a vector store, it holds every
  document given, in order, each with the vector of its content: never a part of them.
\<close>

theorem index_build_all_or_nothing:
  assumes "hf_embeddings w ''sentence-transformers/all-mpnet-base-v2'' = Inr emb"
    and "d \<in> set docs" and "emb (page_content d) = Inl e"
  shows "(\<exists>e'. get_vectorstore w docs = Inl e' \<and>
            (load_pharma_data w = Inr docs \<and> qa_chain st = None \<longrightarrow>
               fst (main w st chat_input) = st \<and>
               last (snd (main w st chat_input)) = Stop \<and>
               Error (''Initialization failed: '' @ str_exc e') \<in> set (snd (main w st chat_input)))) \<and>
         (\<forall>docs' vs. get_vectorstore w docs' = Inr vs \<longrightarrow>
            map snd (entries vs) = docs' \<and>
            list_all2 (\<lambda>d v. emb (page_content d) = Inr v) docs' (map fst (entries vs)))"
proof -
  from get_vectorstore_fails [OF assms] obtain e' where e': "get_vectorstore w docs = Inl e'"
    by blast
  have halts: "fst (main w st chat_input) = st \<and> last (snd (main w st chat_input)) = Stop \<and>
      Error (''Initialization failed: '' @ str_exc e') \<in> set (snd (main w st chat_input))"
    if "load_pharma_data w = Inr docs" and "qa_chain st = None"
  proof -
    from that e' have "load_pharma_data w = Inl e' \<or>
        (\<exists>docs. load_pharma_data w = Inr docs \<and> get_vectorstore w docs = Inl e')"
      by blast
    from startup_fails [OF that(2) this] obtain shown where
      "startup w st =
         (Spinner ''Loading pharmaceutical knowledge...'' # shown @
            [Error (''Initialization failed: '' @ str_exc e'),
             Error (''Full error: '' @ repr_exc e'),
             Stop],
          Inl e')"
      by blast
    then show ?thesis by (simp add: main_def)
  qed
  have failed: "\<exists>e'. get_vectorstore w docs = Inl e' \<and>
      (load_pharma_data w = Inr docs \<and> qa_chain st = None \<longrightarrow>
         fst (main w st chat_input) = st \<and>
         last (snd (main w st chat_input)) = Stop \<and>
         Error (''Initialization failed: '' @ str_exc e') \<in> set (snd (main w st chat_input)))"
    using e' halts by (intro exI [of _ e']) simp
  have all: "\<forall>docs' vs. get_vectorstore w docs' = Inr vs \<longrightarrow>
      map snd (entries vs) = docs' \<and>
      list_all2 (\<lambda>d v. emb (page_content d) = Inr v) docs' (map fst (entries vs))"
    using get_vectorstore_complete [OF assms(1)] by simp
  from failed all show ?thesis by (rule conjI)
qed

theorem index_build_all_or_nothing_witness:
  "hf_embeddings short_world ''sentence-transformers/all-mpnet-base-v2'' = Inr short_embed \<and>
   example_cetzine \<in> set example_docs \<and>
   short_embed (page_content example_cetzine) =
     Inl (External ''text too long'' ''RuntimeError(text too long)'') \<and>
   load_pharma_data short_world = Inr example_docs \<and>
   qa_chain fresh_session = None \<and>
   get_vectorstore short_world example_docs =
     Inl (External ''text too long'' ''RuntimeError(text too long)'') \<and>
   fst (main short_world fresh_session None) = fresh_session \<and>
   last (snd (main short_world fresh_session None)) = Stop \<and>
   Error ''Initialization failed: text too long'' \<in> set (snd (main short_world fresh_session None)) \<and>
   get_vectorstore example_world example_docs = Inr example_vectorstore \<and>
   map snd (entries example_vectorstore) = example_docs"
proof -
  have emb: "hf_embeddings short_world ''sentence-transformers/all-mpnet-base-v2'' = Inr short_embed"
    by (simp add: short_world_def)
  have mem: "example_cetzine \<in> set example_docs"
    by (simp add: example_docs_def)
  have fails: "short_embed (page_content example_cetzine) =
      Inl (External ''text too long'' ''RuntimeError(text too long)'')"
    by (simp add: short_embed_def example_cetzine_def nl_def)
  have fresh: "qa_chain fresh_session = None"
    by (simp add: fresh_session_def)
  have whole: "map snd (entries example_vectorstore) = example_docs"
    by (simp add: example_vectorstore_def example_docs_def)
  from index_build_all_or_nothing [OF emb mem fails, of fresh_session None]
    short_store_fails short_load fresh
  have "fst (main short_world fresh_session None) = fresh_session"
    and "last (snd (main short_world fresh_session None)) = Stop"
    and "Error ''Initialization failed: text too long'' \<in> set (snd (main short_world fresh_session None))"
    by auto
  with emb mem fails short_load fresh short_store_fails example_store whole
  show ?thesis by (intro conjI)
qed


section \<open>The settings of the chain\<close>

lemma call_chain_created:
  assumes "create_qa_chain w vs = Inr c" and "call_chain w' c question = Inr res"
  shows "\<exists>docs. similarity_search vs question 4 = Inr docs \<and>
           source_documents res = Some docs \<and>
           groq_invoke w' (chain_llm c)
             (PROMPT_TEMPLATE (join (nl @ nl) (map page_content docs)) question) =
             Inr (result res)"
  using assms(2) unfolding create_qa_chain_Inr [OF assms(1)]
  by (auto simp: call_chain_def bind_eq_Inr)

text \<open>
  Claim C8, as the specification words it, makes the number of documents retrieved an
  option \<open>top_k\<close> of the configuration. The program has no such option: with
  \<open>top_k\<close> set to 7 (and \<open>temperature\<close> to 0.9) in the environment, the chain built is
  the one of the example, which retrieves 4 documents.
\<close>

theorem top_k_not_configurable:
  "create_qa_chain tuned_world example_vectorstore = Inr example_chain \<and>
   spec_top_k (environ tuned_world) = 7 \<and>
   search_k (chain_retriever example_chain) \<noteq> spec_top_k (environ tuned_world)"
  by (simp add: create_qa_chain_def tuned_world_def example_world_def example_chain_def
      spec_top_k_def)

text \<open>
  Claim C8, amended. Every chain that \<open>create_qa_chain\<close> builds retrieves 4 documents and
  holds the temperature 0.2, which lies between 0 and 1; both are constants of the program.
  What the program reads of the configuration is the key of the generation service
  (\<open>GROQ_API_KEY\<close>), handed to the client, and the identifier of the spreadsheet
  (\<open>SPREADSHEET_ID\<close>), handed to the opening of it. A call of the chain that returns has
  searched the index for 4 documents and has sent the prompt rendered from them and the
  question to the generation service with these settings. An environment that agrees on
  the key gives the same chain, whatever else it holds.
\<close>

theorem chain_settings_are_fixed:
  assumes "create_qa_chain w vs = Inr c"
  shows "search_k (chain_retriever c) = 4 \<and>
         llm_temperature (chain_llm c) = 0.2 \<and>
         0 \<le> llm_temperature (chain_llm c) \<and> llm_temperature (chain_llm c) \<le> 1 \<and>
         llm_api_key (chain_llm c) = environ w ''GROQ_API_KEY'' \<and>
         connect_to_gsheets w = open_by_key w (environ w ''SPREADSHEET_ID'') \<and>
         (\<forall>w' question res.
            call_chain w' c question = Inr res \<longrightarrow>
            (\<exists>docs. similarity_search vs question 4 = Inr docs \<and>
               source_documents res = Some docs \<and>
               groq_invoke w' (chain_llm c)
                 (PROMPT_TEMPLATE (join (nl @ nl) (map page_content docs)) question) =
                 Inr (result res))) \<and>
         (\<forall>w'. environ w' ''GROQ_API_KEY'' = environ w ''GROQ_API_KEY'' \<and>
               chat_groq w' = chat_groq w \<longrightarrow>
               create_qa_chain w' vs = Inr c)"
proof -
  note c = create_qa_chain_Inr [OF assms]
  have k: "search_k (chain_retriever c) = 4"
    and t: "llm_temperature (chain_llm c) = 0.2"
    and key: "llm_api_key (chain_llm c) = environ w ''GROQ_API_KEY''"
    by (subst c, simp)+
  have same: "create_qa_chain w' vs = Inr c"
    if "environ w' ''GROQ_API_KEY'' = environ w ''GROQ_API_KEY'' \<and> chat_groq w' = chat_groq w"
    for w' :: "('a, 'b) world"
    using assms that by (simp add: create_qa_chain_def)
  from k t key same call_chain_created [OF assms] show ?thesis
    by (simp add: connect_to_gsheets_def)
qed

theorem chain_settings_are_fixed_witness:
  "create_qa_chain example_world example_vectorstore = Inr example_chain \<and>
   search_k (chain_retriever example_chain) = 4 \<and>
   llm_temperature (chain_llm example_chain) = 0.2 \<and>
   llm_api_key (chain_llm example_chain) = Some ''key-1'' \<and>
   connect_to_gsheets example_world = Inr example_sheet \<and>
   call_chain example_world example_chain example_question = Inr example_result \<and>
   (\<exists>docs. similarity_search example_vectorstore example_question 4 = Inr docs \<and>
      source_documents example_result = Some docs \<and>
      groq_invoke example_world (chain_llm example_chain)
        (PROMPT_TEMPLATE (join (nl @ nl) (map page_content docs)) example_question) =
        Inr (result example_result)) \<and>
   environ tuned_world ''GROQ_API_KEY'' = environ example_world ''GROQ_API_KEY'' \<and>
   chat_groq tuned_world = chat_groq example_world \<and>
   environ tuned_world ''top_k'' = Some ''7'' \<and>
   environ tuned_world ''temperature'' = Some ''0.9'' \<and>
   create_qa_chain tuned_world example_vectorstore = Inr example_chain"
proof -
  note fixed = chain_settings_are_fixed [OF example_create]
  have env: "environ tuned_world ''GROQ_API_KEY'' = environ example_world ''GROQ_API_KEY''"
    "chat_groq tuned_world = chat_groq example_world"
    "environ tuned_world ''top_k'' = Some ''7''"
    "environ tuned_world ''temperature'' = Some ''0.9''"
    by (simp_all add: tuned_world_def example_world_def)
  from fixed env(1,2) have tuned: "create_qa_chain tuned_world example_vectorstore = Inr example_chain"
    by blast
  from fixed example_call
  have call: "\<exists>docs. similarity_search example_vectorstore example_question 4 = Inr docs \<and>
      source_documents example_result = Some docs \<and>
      groq_invoke example_world (chain_llm example_chain)
        (PROMPT_TEMPLATE (join (nl @ nl) (map page_content docs)) example_question) =
        Inr (result example_result)"
    by blast
  from fixed have "search_k (chain_retriever example_chain) = 4"
    and "llm_temperature (chain_llm example_chain) = 0.2"
    and "llm_api_key (chain_llm example_chain) = Some ''key-1''"
    and "connect_to_gsheets example_world = Inr example_sheet"
    by (simp_all add: example_world_def)
  with example_create example_call call env tuned show ?thesis
    by (intro conjI)
qed


end
